theory Spec2Isabelle
  imports Complex_Main "HOL-Library.Word"
begin

section \<open>JavaScript strings\<close>

text \<open>
  A JavaScript string is a sequence of UTF-16 code units. \<open>String.prototype.trim\<close>
  removes the ECMAScript WhiteSpace and LineTerminator code points from both ends; all of
  them lie in the Basic Multilingual Plane, so the test is on single code units.
  A string is truthy exactly when it is not empty. \<open>utf16\<close> writes an ASCII literal as
  code units.
\<close>

type_synonym jsstring = "16 word list"

definition utf16 :: "string \<Rightarrow> jsstring" where
  "utf16 cs = map (\<lambda>c. of_nat (of_char c)) cs"

definition isWhiteSpace :: "16 word \<Rightarrow> bool" where
  "isWhiteSpace c \<longleftrightarrow>
     c \<in> set [0x0009, 0x000A, 0x000B, 0x000C, 0x000D, 0x0020, 0x00A0, 0x1680,
              0x2000, 0x2001, 0x2002, 0x2003, 0x2004, 0x2005, 0x2006, 0x2007,
              0x2008, 0x2009, 0x200A, 0x2028, 0x2029, 0x202F, 0x205F, 0x3000,
              0xFEFF]"

definition trim :: "jsstring \<Rightarrow> jsstring" where
  "trim s = rev (dropWhile isWhiteSpace (rev (dropWhile isWhiteSpace s)))"

text \<open>\<open>Array.prototype.join\<close> on an array of strings.\<close>

fun join :: "jsstring \<Rightarrow> jsstring list \<Rightarrow> jsstring" where
  "join sep [] = []"
| "join sep [x] = x"
| "join sep (x # y # ys) = x @ sep @ join sep (y # ys)"

definition space :: jsstring where
  "space = [0x0020]"

section \<open>Messages of the live API\<close>

text \<open>
  The handlers take their arguments as \<open>any\<close> and guard the fields they read with
  \<open>?.\<close> and truthiness tests, so every field that a guard tests is optional here.
  The field \<open>text\<close> of a part is called \<open>part_text\<close>, since \<open>text\<close> is taken in
  Isabelle.
\<close>

record part =
  part_text :: "jsstring option"
  inlineData :: "jsstring option"

record content =
  role :: "jsstring option"
  parts :: "part list option"

record serverContent =
  modelTurn :: "content option"

record clientContentBody =
  turns :: "content list option"
  turnComplete :: bool

record message =
  clientContent :: "clientContentBody option"

datatype tool = GoogleSearch | FunctionDeclarations "jsstring list"

record liveConfig =
  model :: jsstring
  responseModalities :: "jsstring option"
  systemInstruction :: "jsstring list"
  tools :: "tool list"

datatype error =
  ConfigNotSet      \<comment> \<open>\<open>new Error("config has not been set")\<close>\<close>
| ConnectRejected   \<comment> \<open>the promise of \<open>client.connect\<close> rejects\<close>
| TypeError         \<comment> \<open>a method called on \<open>undefined\<close>\<close>

section \<open>The hook \<open>useLiveAPI\<close>\<close>

text \<open>
  The state of the hook: the five \<open>useState\<close> cells and the two refs. The audio
  streamer is a class of the repository outside the given sources.

  A state cell changes in two ways. A call \<open>setX(v)\<close> with a value, or with an updater
  that reads nothing but its argument and constants, fixes the next value at the call.
  The updater that \<open>onTurnComplete\<close> gives to \<open>setTextResponses\<close> reads the ref
  \<open>currentResponseRef\<close> when React runs it, so its result depends on when that is. React
  puts an updater in the queue of its cell and runs the queue at the next render; it may
  run an updater at the call instead, when nothing is queued. \<open>queuedUpdaters\<close> counts
  the updaters of \<open>textResponses\<close> that are queued and not yet run; they are all the same
  function, \<open>prev => [...prev, currentResponseRef.current.trim()]\<close>.
\<close>

text \<open>
  Modelled from the spec: the class \<open>AudioStreamer\<close> (lib/audio-streamer), of which the
  hook calls \<open>addPCM16\<close> and \<open>stop\<close>. It holds the playback buffer, a queue of frames:
  \<open>addPCM16\<close> appends a frame, \<open>stop\<close> discards every buffered frame.
\<close>

record audioStreamer =
  audioQueue :: "8 word list list"

definition addPCM16 :: "8 word list \<Rightarrow> audioStreamer \<Rightarrow> audioStreamer" where
  "addPCM16 chunk a = a\<lparr>audioQueue := audioQueue a @ [chunk]\<rparr>"

definition stop :: "audioStreamer \<Rightarrow> audioStreamer" where
  "stop a = a\<lparr>audioQueue := []\<rparr>"

record hook =
  connected :: bool
  config :: "liveConfig option"
  volume :: real
  textResponses :: "jsstring list"
  userMessages :: "jsstring list"
  currentResponseRef :: jsstring
  audioStreamerRef :: "audioStreamer option"
  queuedUpdaters :: nat

text \<open>The state at the first render (lines 47 to 56 of use-live-api.ts).\<close>

definition defaultConfig :: liveConfig where
  "defaultConfig = \<lparr>model = utf16 ''models/gemini-2.0-flash-exp'',
     responseModalities = None, systemInstruction = [], tools = []\<rparr>"

definition initial :: hook where
  "initial = \<lparr>connected = False, config = Some defaultConfig, volume = 0,
     textResponses = [], userMessages = [], currentResponseRef = [],
     audioStreamerRef = None, queuedUpdaters = 0\<rparr>"

subsection \<open>Event handlers\<close>

definition onClose :: "hook \<Rightarrow> hook" where
  "onClose s = s\<lparr>connected := False\<rparr>"

definition stopAudioStreamer :: "hook \<Rightarrow> hook" where
  "stopAudioStreamer s = s\<lparr>audioStreamerRef := map_option stop (audioStreamerRef s)\<rparr>"

definition onAudio :: "8 word list \<Rightarrow> hook \<Rightarrow> hook" where
  "onAudio data s = s\<lparr>audioStreamerRef := map_option (addPCM16 data) (audioStreamerRef s)\<rparr>"

text \<open>
  \<open>ps.filter((p) => p.text).map((p) => p.text)\<close>: the texts of the parts whose text
  is truthy, that is present and not empty.
\<close>

fun texts :: "part list \<Rightarrow> jsstring list" where
  "texts [] = []"
| "texts (p # ps) =
     (case part_text p of
        None \<Rightarrow> texts ps
      | Some t \<Rightarrow> if t \<noteq> [] then t # texts ps else texts ps)"

definition onServerContent :: "serverContent \<Rightarrow> hook \<Rightarrow> hook" where
  "onServerContent c s =
     (case modelTurn c of
        None \<Rightarrow> s
      | Some mt \<Rightarrow>
          (case parts mt of
             None \<Rightarrow> s
           | Some ps \<Rightarrow>
               (let textParts = join space (texts ps)
                in if trim textParts \<noteq> []
                   then s\<lparr>currentResponseRef := currentResponseRef s @ textParts\<rparr>
                   else s)))"

text \<open>
  The guard and the reset of the ref are statements of the handler and happen at the
  call. The updater is run by React: at the call, when React chooses to (\<open>eager\<close>) and
  nothing is queued, and then it reads the ref before the reset on the next line;
  otherwise at the next render, and then it reads the ref as it is at that render,
  after the reset. Which of the two happens is decided by React, outside these sources,
  and is the argument \<open>eager\<close> of the handler.
\<close>

definition onTurnComplete :: "bool \<Rightarrow> hook \<Rightarrow> hook" where
  "onTurnComplete eager s =
     (if trim (currentResponseRef s) \<noteq> []
      then (if eager \<and> queuedUpdaters s = 0
            then s\<lparr>textResponses := textResponses s @ [trim (currentResponseRef s)],
                   currentResponseRef := []\<rparr>
            else s\<lparr>queuedUpdaters := Suc (queuedUpdaters s),
                   currentResponseRef := []\<rparr>)
      else s)"

text \<open>
  A render of the component runs the queued updaters in order. Each appends the trim of
  the ref as it is now.
\<close>

definition render :: "hook \<Rightarrow> hook" where
  "render s =
     s\<lparr>textResponses :=
         textResponses s @ replicate (queuedUpdaters s) (trim (currentResponseRef s)),
       queuedUpdaters := 0\<rparr>"

text \<open>\<open>turn.parts.filter(...)\<close> raises a TypeError when the turn has no parts.\<close>

definition turnText :: "content \<Rightarrow> error + jsstring" where
  "turnText t =
     (case parts t of
        None \<Rightarrow> Inl TypeError
      | Some ps \<Rightarrow> Inr (join space (texts ps)))"

fun turnTexts :: "content list \<Rightarrow> error + jsstring list" where
  "turnTexts [] = Inr []"
| "turnTexts (t # ts) =
     (case turnText t of
        Inl e \<Rightarrow> Inl e
      | Inr x \<Rightarrow> (case turnTexts ts of Inl e \<Rightarrow> Inl e | Inr xs \<Rightarrow> Inr (x # xs)))"

definition onClientContent :: "message \<Rightarrow> hook \<Rightarrow> error + hook" where
  "onClientContent m s =
     (case clientContent m of
        None \<Rightarrow> Inr s
      | Some cc \<Rightarrow>
          (case turns cc of
             None \<Rightarrow> Inr s
           | Some ts \<Rightarrow>
               (case turnTexts ts of
                  Inl e \<Rightarrow> Inl e
                | Inr xs \<Rightarrow>
                    (let userText = join space xs
                     in if trim userText \<noteq> []
                        then Inr (s\<lparr>userMessages := userMessages s @ [userText]\<rparr>)
                        else Inr s))))"

subsection \<open>Operations\<close>

text \<open>
  The calls that an operation makes on the protocol client, in order. Whether the promise
  of \<open>client.connect\<close> resolves is decided outside the hook and is the argument
  \<open>resolves\<close> of \<open>connect\<close>.
\<close>

datatype clientCall = ClientDisconnect | ClientConnect liveConfig

definition setConfig :: "liveConfig \<Rightarrow> hook \<Rightarrow> hook" where
  "setConfig cfg s = s\<lparr>config := Some cfg\<rparr>"

definition setVolume :: "real \<Rightarrow> hook \<Rightarrow> hook" where
  "setVolume v s = s\<lparr>volume := v\<rparr>"

definition connect :: "bool \<Rightarrow> hook \<Rightarrow> (error + hook) \<times> clientCall list" where
  "connect resolves s =
     (case config s of
        None \<Rightarrow> (Inl ConfigNotSet, [])
      | Some cfg \<Rightarrow>
          (if resolves
           then (Inr (s\<lparr>connected := True\<rparr>), [ClientDisconnect, ClientConnect cfg])
           else (Inl ConnectRejected, [ClientDisconnect, ClientConnect cfg])))"

definition disconnect :: "hook \<Rightarrow> hook \<times> clientCall list" where
  "disconnect s = (s\<lparr>connected := False\<rparr>, [ClientDisconnect])"

subsection \<open>Runs of the hook\<close>

text \<open>
  The first effect of the hook asks for the audio context when the ref is still empty;
  the callback of that promise stores a new audio streamer, with nothing buffered, in
  the ref.
\<close>

definition registerAudio :: "hook \<Rightarrow> hook" where
  "registerAudio s = s\<lparr>audioStreamerRef := Some \<lparr>audioQueue = []\<rparr>\<rparr>"

text \<open>
  Everything that can happen to the hook: the six events of the client, the callback of
  the volume meter, the callback that stores the audio streamer, the three operations
  that the hook returns, and a render by React. An exception leaves a handler before it has written anything, so the
  state is then the one before.
\<close>

datatype event =
  Close
| Interrupted
| Audio "8 word list"
| Content serverContent
| TurnComplete bool
| ClientContent message
| VolumeMeter real
| AudioReady
| SetConfig liveConfig
| Connect bool
| Disconnect
| Render

fun step :: "event \<Rightarrow> hook \<Rightarrow> hook" where
  "step Close s = onClose s"
| "step Interrupted s = stopAudioStreamer s"
| "step (Audio d) s = onAudio d s"
| "step (Content c) s = onServerContent c s"
| "step (TurnComplete eager) s = onTurnComplete eager s"
| "step (ClientContent m) s = (case onClientContent m s of Inl e \<Rightarrow> s | Inr s' \<Rightarrow> s')"
| "step (VolumeMeter v) s = setVolume v s"
| "step AudioReady s = registerAudio s"
| "step (SetConfig cfg) s = setConfig cfg s"
| "step (Connect resolves) s = (case fst (connect resolves s) of Inl e \<Rightarrow> s | Inr s' \<Rightarrow> s')"
| "step Disconnect s = fst (disconnect s)"
| "step Render s = render s"

fun run :: "event list \<Rightarrow> hook \<Rightarrow> hook" where
  "run [] s = s"
| "run (e # es) s = run es (step e s)"



text \<open>
  The text fragments of a turn and of a content event, and the two texts as the
  specification words them. For a model turn: all fragments seen, joined by single
  spaces, then trimmed. For a user message: the parts of a turn joined by a single space,
  the turns joined by a single space, then trimmed.
\<close>

definition fragments :: "content \<Rightarrow> jsstring list" where
  "fragments t = (case parts t of None \<Rightarrow> [] | Some ps \<Rightarrow> texts ps)"



definition specUserText :: "content list \<Rightarrow> jsstring" where
  "specUserText ts = trim (join space (map (\<lambda>t. join space (fragments t)) ts))"

text \<open>A server content event and a user turn that carry one text part.\<close>

definition textEvent :: "jsstring \<Rightarrow> serverContent" where
  "textEvent t = \<lparr>modelTurn = Some \<lparr>role = None,
     parts = Some [\<lparr>part_text = Some t, inlineData = None\<rparr>]\<rparr>\<rparr>"

definition textTurn :: "jsstring \<Rightarrow> content" where
  "textTurn t = \<lparr>role = None, parts = Some [\<lparr>part_text = Some t, inlineData = None\<rparr>]\<rparr>"

definition userEvent :: "content list \<Rightarrow> message" where
  "userEvent ts = \<lparr>clientContent = Some \<lparr>turns = Some ts, turnComplete = True\<rparr>\<rparr>"

subsection \<open>Invariants of the turn history\<close>

definition historyOk :: "hook \<Rightarrow> bool" where
  "historyOk s \<longleftrightarrow>
     list_all (\<lambda>t. t \<noteq> [] \<and> trim t = t) (textResponses s)
     \<and> list_all (\<lambda>u. trim u \<noteq> []) (userMessages s)"

definition accumulatorOk :: "hook \<Rightarrow> bool" where
  "accumulatorOk s \<longleftrightarrow> currentResponseRef s = [] \<or> trim (currentResponseRef s) \<noteq> []"

section \<open>The component \<open>Altair\<close>\<close>

text \<open>
  The fields \<open>name\<close>, \<open>args\<close> and \<open>id\<close> of a function invocation carry the prefix
  \<open>fc_\<close>, the fields \<open>id\<close> and \<open>output\<close> of a response the prefix \<open>fr_\<close>, and those of
  the declaration the prefix \<open>decl_\<close>: \<open>id\<close> and \<open>output\<close> are taken in Isabelle, as
  is the name of the constant \<open>declaration\<close>, here \<open>altairDeclaration\<close>.
\<close>

record functionCall =
  fc_name :: jsstring
  fc_args :: "(jsstring \<times> jsstring) list"
  fc_id :: jsstring

record toolCall =
  functionCalls :: "functionCall list"

record successOutput =
  success :: bool

record responseBody =
  fr_output :: successOutput

record functionResponse =
  response :: responseBody
  fr_id :: jsstring

record toolResponse =
  functionResponses :: "functionResponse list"

record functionDeclaration =
  decl_name :: jsstring
  decl_description :: jsstring

definition altairDeclaration :: functionDeclaration where
  "altairDeclaration = \<lparr>decl_name = utf16 ''render_altair'',
     decl_description = utf16 ''Displays an altair graph in json format.''\<rparr>"

text \<open>
  What the handler of a tool call does, in order: it may call \<open>setJSONString\<close>, the
  handler of the declaration, with the \<open>json_graph\<close> argument (undefined when the
  invocation has none), and it may set one timer of 200 ms whose callback calls
  \<open>client.sendToolResponse\<close> with one message.
\<close>

datatype effect =
  SetJSONString "jsstring option"
| SetTimeout toolResponse nat

definition onToolCall :: "toolCall \<Rightarrow> effect list" where
  "onToolCall tc =
     (case find (\<lambda>fc. fc_name fc = decl_name altairDeclaration) (functionCalls tc) of
        None \<Rightarrow> []
      | Some fc \<Rightarrow> [SetJSONString (map_of (fc_args fc) (utf16 ''json_graph''))])
     @ (if length (functionCalls tc) \<noteq> 0
        then [SetTimeout
                \<lparr>functionResponses =
                   map (\<lambda>fc. \<lparr>response = \<lparr>fr_output = \<lparr>success = True\<rparr>\<rparr>, fr_id = fc_id fc\<rparr>)
                     (functionCalls tc)\<rparr>
                200]
        else [])"

text \<open>
  The calls of the handler \<open>setJSONString\<close>, the calls of \<open>sendToolResponse\<close> once the
  timers have fired (no timer is ever cleared, so each fires once, in the order set), and
  the function responses that those calls carry.
\<close>

fun handlerCalls :: "effect list \<Rightarrow> jsstring option list" where
  "handlerCalls [] = []"
| "handlerCalls (SetJSONString a # es) = a # handlerCalls es"
| "handlerCalls (SetTimeout r d # es) = handlerCalls es"

fun sendToolResponseCalls :: "effect list \<Rightarrow> toolResponse list" where
  "sendToolResponseCalls [] = []"
| "sendToolResponseCalls (SetJSONString a # es) = sendToolResponseCalls es"
| "sendToolResponseCalls (SetTimeout r d # es) = r # sendToolResponseCalls es"

definition sentResponses :: "effect list \<Rightarrow> functionResponse list" where
  "sentResponses es = concat (map functionResponses (sendToolResponseCalls es))"

text \<open>
  The handler calls as the specification words them: one for every invocation whose name
  is the declaration's, with that invocation's argument.
\<close>

definition specHandlerCalls :: "toolCall \<Rightarrow> jsstring option list" where
  "specHandlerCalls tc =
     map (\<lambda>fc. map_of (fc_args fc) (utf16 ''json_graph''))
       (filter (\<lambda>fc. fc_name fc = decl_name altairDeclaration) (functionCalls tc))"

definition invocation :: "string \<Rightarrow> string \<Rightarrow> string \<Rightarrow> functionCall" where
  "invocation n g i =
     \<lparr>fc_name = utf16 n, fc_args = [(utf16 ''json_graph'', utf16 g)], fc_id = utf16 i\<rparr>"

section \<open>Properties of trimming\<close>

lemma trim_eq_Nil_iff: "trim s = [] \<longleftrightarrow> (\<forall>c\<in>set s. isWhiteSpace c)"
proof
  assume "trim s = []"
  then have "\<forall>c\<in>set (dropWhile isWhiteSpace s). isWhiteSpace c"
    by (simp add: trim_def dropWhile_eq_Nil_conv)
  then have "dropWhile isWhiteSpace s = []"
    using hd_dropWhile [of isWhiteSpace s] hd_in_set [of "dropWhile isWhiteSpace s"] by blast
  then show "\<forall>c\<in>set s. isWhiteSpace c"
    by (simp add: dropWhile_eq_Nil_conv)
next
  assume "\<forall>c\<in>set s. isWhiteSpace c"
  then have d: "dropWhile isWhiteSpace s = []"
    by (simp add: dropWhile_eq_Nil_conv)
  show "trim s = []"
    unfolding trim_def d by simp
qed

lemma trim_append_nonblank: "trim t \<noteq> [] \<Longrightarrow> trim (s @ t) \<noteq> []"
  by (auto simp: trim_eq_Nil_iff)

text \<open>
  A trimmed string starts and ends with a character that is not white space, so trimming
  it again changes nothing.
\<close>

lemma trim_idem: "trim (trim s) = trim s"
proof (cases "dropWhile isWhiteSpace s = []")
  case True
  show ?thesis unfolding trim_def True by simp
next
  case False
  define d where "d = dropWhile isWhiteSpace s"
  define r where "r = dropWhile isWhiteSpace (rev d)"
  have d: "d \<noteq> []" "\<not> isWhiteSpace (hd d)"
    using False hd_dropWhile [of isWhiteSpace s] by (simp_all add: d_def)
  have mem: "hd d \<in> set (rev d)" using d by simp
  have r: "r \<noteq> []"
    using mem d(2) by (auto simp: r_def dropWhile_eq_Nil_conv)
  have hr: "\<not> isWhiteSpace (hd r)"
    using r hd_dropWhile [of isWhiteSpace "rev d"] by (simp add: r_def)
  have "last r = last (rev d)"
    using dropWhile_last [of "hd d" "rev d" isWhiteSpace] mem d(2) by (simp add: r_def)
  then have lr: "\<not> isWhiteSpace (last r)"
    using d by (simp add: last_rev)
  have 1: "dropWhile isWhiteSpace (rev r) = rev r"
    using r lr by (simp add: dropWhile_eq_self_iff hd_rev)
  have 2: "dropWhile isWhiteSpace r = r"
    using hr by (simp add: dropWhile_eq_self_iff)
  have "trim s = rev r" by (simp add: trim_def r_def d_def)
  moreover have "trim (rev r) = rev r" by (simp add: trim_def 1 2)
  ultimately show ?thesis by simp
qed

section \<open>Aggregation of model turns\<close>







text \<open>
  C6. A turncomplete event that arrives when the accumulator is empty after trimming
  appends nothing: the handler returns the state as it was, so \<open>textResponses\<close> and its
  length are unchanged and no updater is queued, and the handler has no failing branch.
\<close>

theorem turncomplete_blank:
  "trim (currentResponseRef s) = [] \<Longrightarrow>
     onTurnComplete eager s = s
     \<and> textResponses (onTurnComplete eager s) = textResponses s
     \<and> length (textResponses (onTurnComplete eager s)) = length (textResponses s)
     \<and> queuedUpdaters (onTurnComplete eager s) = queuedUpdaters s"
  by (simp add: onTurnComplete_def)

theorem turncomplete_blank_witness:
  "trim (currentResponseRef (onServerContent (textEvent (utf16 ''  ''))
           (initial\<lparr>textResponses := [utf16 ''Hi'']\<rparr>))) = []
   \<and> textResponses (onTurnComplete False (onServerContent (textEvent (utf16 ''  ''))
           (initial\<lparr>textResponses := [utf16 ''Hi'']\<rparr>)))
       = [utf16 ''Hi'']
   \<and> queuedUpdaters (onTurnComplete False (onServerContent (textEvent (utf16 ''  ''))
           (initial\<lparr>textResponses := [utf16 ''Hi'']\<rparr>))) = 0"
  using turncomplete_blank
    [of "onServerContent (textEvent (utf16 ''  '')) (initial\<lparr>textResponses := [utf16 ''Hi'']\<rparr>)"
        False]
  by (simp add: onServerContent_def textEvent_def initial_def utf16_def trim_def
      isWhiteSpace_def space_def)

section \<open>The accumulator over runs of the hook\<close>

lemma accumulatorOk_onServerContent:
  "accumulatorOk s \<Longrightarrow> accumulatorOk (onServerContent c s)"
  by (auto simp: accumulatorOk_def onServerContent_def Let_def trim_append_nonblank
      split: option.splits)

lemma accumulatorOk_onClientContent:
  "accumulatorOk s \<Longrightarrow> onClientContent m s = Inr s' \<Longrightarrow> accumulatorOk s'"
  by (auto simp: accumulatorOk_def onClientContent_def Let_def
      split: option.splits sum.splits if_splits)

lemma accumulatorOk_step:
  assumes "accumulatorOk s"
  shows "accumulatorOk (step e s)"
proof (cases e)
  case (Content c)
  then show ?thesis using assms by (simp add: accumulatorOk_onServerContent)
next
  case (ClientContent m)
  then show ?thesis using assms accumulatorOk_onClientContent [of s m]
    by (simp split: sum.splits)
next
  case (TurnComplete eager)
  then show ?thesis using assms by (auto simp: accumulatorOk_def onTurnComplete_def)
next
  case (Connect r)
  then show ?thesis using assms
    by (auto simp: accumulatorOk_def connect_def split: option.splits)
qed (use assms in \<open>simp_all add: accumulatorOk_def onClose_def stopAudioStreamer_def onAudio_def
      setVolume_def registerAudio_def setConfig_def disconnect_def render_def
      split: option.splits\<close>)

lemma accumulatorOk_run: "accumulatorOk s \<Longrightarrow> accumulatorOk (run es s)"
  by (induction es arbitrary: s) (simp_all add: accumulatorOk_step)

lemma accumulatorOk_initial: "accumulatorOk initial"
  by (simp add: accumulatorOk_def initial_def)

text \<open>
  C7. After every turncomplete event the accumulator is the empty string: whatever
  events, operations and renders the hook has gone through since its first render, and
  whenever React runs the updater, the state after the turncomplete handler has an empty
  accumulator. This includes a turncomplete received while the accumulator holds only
  white space, since in every such run an accumulator that is blank is already empty: a
  content event whose joined text is blank adds nothing, so the guard of the handler
  skips the reset only when there is nothing to reset.
\<close>

theorem accumulator_cleared:
  "currentResponseRef (onTurnComplete eager (run es initial)) = []
   \<and> (trim (currentResponseRef (run es initial)) = []
        \<longrightarrow> currentResponseRef (run es initial) = [])"
  using accumulatorOk_run [OF accumulatorOk_initial, of es]
  by (auto simp: accumulatorOk_def onTurnComplete_def)

theorem accumulator_cleared_witness:
  "trim (currentResponseRef (run [Content (textEvent (utf16 ''  ''))] initial)) = []
   \<and> currentResponseRef (run [Content (textEvent (utf16 ''  ''))] initial) = []
   \<and> currentResponseRef (onTurnComplete False
        (run [Content (textEvent (utf16 ''  ''))] initial)) = []"
  using accumulator_cleared [of False "[Content (textEvent (utf16 ''  ''))]"]
  by (simp add: onServerContent_def textEvent_def initial_def utf16_def trim_def
      isWhiteSpace_def space_def)

section \<open>The turn history\<close>

text \<open>
  C9. The claim is that every element of \<open>textResponses\<close> is non-empty, which the
  handler means to ensure by its guard and its \<open>trim()\<close>. The code breaks it: after
  \<open>connect()\<close>, a content event with the text "you" and a turncomplete, the render runs
  the queued updater, which reads the ref after its reset and appends the empty string.
  The history is well formed at the first render and is not after this run; the text
  "you" is lost.
\<close>

theorem history_empty_entry:
  "historyOk initial
   \<and> textResponses (run [Connect True, Content (textEvent (utf16 ''you'')),
                          TurnComplete False, Render] initial) = [[]]
   \<and> \<not> historyOk (run [Connect True, Content (textEvent (utf16 ''you'')),
                          TurnComplete False, Render] initial)"
  by (simp add: historyOk_def onTurnComplete_def render_def onServerContent_def connect_def
      textEvent_def initial_def utf16_def trim_def isWhiteSpace_def space_def)

section \<open>User messages\<close>

lemma turnTexts_all_parts:
  "list_all (\<lambda>t. parts t \<noteq> None) ts \<Longrightarrow>
     turnTexts ts = Inr (map (\<lambda>t. join space (fragments t)) ts)"
  by (induction ts) (auto simp: turnText_def fragments_def)

text \<open>
  C4, as amended. For every clientContent event that carries turns, each with its parts,
  \<open>userMessages\<close> grows by exactly one entry if the text of the event is non-empty after
  trimming, and by no entry otherwise. The text is the non-empty text fragments of each
  turn joined by single spaces, the turns then joined by single spaces; the entry is this
  text as it is, not trimmed.
\<close>

theorem user_message_appended:
  "clientContent m = Some cc \<Longrightarrow> turns cc = Some ts \<Longrightarrow>
   list_all (\<lambda>t. parts t \<noteq> None) ts \<Longrightarrow>
     onClientContent m s =
       Inr (if trim (join space (map (\<lambda>t. join space (fragments t)) ts)) \<noteq> []
            then s\<lparr>userMessages := userMessages s
                     @ [join space (map (\<lambda>t. join space (fragments t)) ts)]\<rparr>
            else s)"
  by (simp add: onClientContent_def turnTexts_all_parts Let_def)

theorem user_message_appended_witness:
  "clientContent (userEvent [textTurn (utf16 ''Hi''), textTurn [], textTurn (utf16 ''you '')])
     = Some \<lparr>turns = Some [textTurn (utf16 ''Hi''), textTurn [], textTurn (utf16 ''you '')],
             turnComplete = True\<rparr>
   \<and> list_all (\<lambda>t. parts t \<noteq> None)
        [textTurn (utf16 ''Hi''), textTurn [], textTurn (utf16 ''you '')]
   \<and> onClientContent
        (userEvent [textTurn (utf16 ''Hi''), textTurn [], textTurn (utf16 ''you '')]) initial
     = Inr (initial\<lparr>userMessages := [utf16 ''Hi  you '']\<rparr>)"
  using user_message_appended
    [of "userEvent [textTurn (utf16 ''Hi''), textTurn [], textTurn (utf16 ''you '')]"
        "\<lparr>turns = Some [textTurn (utf16 ''Hi''), textTurn [], textTurn (utf16 ''you '')],
          turnComplete = True\<rparr>"
        "[textTurn (utf16 ''Hi''), textTurn [], textTurn (utf16 ''you '')]" initial]
  by (simp add: userEvent_def textTurn_def fragments_def initial_def utf16_def
      trim_def isWhiteSpace_def space_def)

text \<open>
  C4 as stated fails: the single turn " Hi" is stored with its leading space, while the
  joined and trimmed text is "Hi".
\<close>

theorem user_message_trimmed_counterexample:
  "onClientContent (userEvent [textTurn (utf16 '' Hi'')]) initial
     = Inr (initial\<lparr>userMessages := [utf16 '' Hi'']\<rparr>)
   \<and> specUserText [textTurn (utf16 '' Hi'')] = utf16 ''Hi''
   \<and> onClientContent (userEvent [textTurn (utf16 '' Hi'')]) initial
     \<noteq> Inr (initial\<lparr>userMessages := userMessages initial
                       @ [specUserText [textTurn (utf16 '' Hi'')]]\<rparr>)"
  by (simp add: onClientContent_def userEvent_def textTurn_def turnText_def initial_def
      utf16_def trim_def isWhiteSpace_def space_def specUserText_def fragments_def)

section \<open>Tool calls\<close>

lemma sendToolResponseCalls_onToolCall:
  "sendToolResponseCalls (onToolCall tc) =
     (if functionCalls tc = [] then []
      else [\<lparr>functionResponses =
               map (\<lambda>fc. \<lparr>response = \<lparr>fr_output = \<lparr>success = True\<rparr>\<rparr>, fr_id = fc_id fc\<rparr>)
                 (functionCalls tc)\<rparr>])"
  by (simp add: onToolCall_def split: option.splits)

lemma find_filter: "find P xs = (case filter P xs of [] \<Rightarrow> None | x # ys \<Rightarrow> Some x)"
  by (induction xs) simp_all

lemma handlerCalls_onToolCall:
  "handlerCalls (onToolCall tc) =
     (case find (\<lambda>fc. fc_name fc = decl_name altairDeclaration) (functionCalls tc) of
        None \<Rightarrow> []
      | Some fc \<Rightarrow> [map_of (fc_args fc) (utf16 ''json_graph'')])"
  by (simp add: onToolCall_def split: option.splits)

text \<open>
  C2, as amended. Every toolcall event with N function invocations, N at least 1,
  results in exactly one \<open>sendToolResponse\<close> call, once its timer has fired. The call
  carries exactly N function responses, in the order of the invocations, the i-th with
  the id of the i-th invocation, and each with the output \<open>{success: true}\<close>, whether or
  not the name of the invocation is that of the declaration.
\<close>

theorem tool_responses_batched:
  "functionCalls tc \<noteq> [] \<Longrightarrow>
     length (sendToolResponseCalls (onToolCall tc)) = 1
     \<and> length (sentResponses (onToolCall tc)) = length (functionCalls tc)
     \<and> map fr_id (sentResponses (onToolCall tc)) = map fc_id (functionCalls tc)
     \<and> list_all (\<lambda>fr. response fr = \<lparr>fr_output = \<lparr>success = True\<rparr>\<rparr>)
          (sentResponses (onToolCall tc))"
  by (simp add: sendToolResponseCalls_onToolCall sentResponses_def list_all_iff comp_def)

theorem tool_responses_batched_witness:
  "functionCalls
     \<lparr>functionCalls = [invocation ''foo'' ''{}'' ''1'', invocation ''bar'' ''{}'' ''2'']\<rparr> \<noteq> []
   \<and> length (sendToolResponseCalls (onToolCall
        \<lparr>functionCalls = [invocation ''foo'' ''{}'' ''1'', invocation ''bar'' ''{}'' ''2'']\<rparr>)) = 1
   \<and> map fr_id (sentResponses (onToolCall
        \<lparr>functionCalls = [invocation ''foo'' ''{}'' ''1'', invocation ''bar'' ''{}'' ''2'']\<rparr>))
      = [utf16 ''1'', utf16 ''2'']"
  using tool_responses_batched
    [of "\<lparr>functionCalls = [invocation ''foo'' ''{}'' ''1'', invocation ''bar'' ''{}'' ''2'']\<rparr>"]
  by (simp add: invocation_def)

text \<open>
  C2 as stated fails: an event with two invocations results in one \<open>sendToolResponse\<close>
  call, not two.
\<close>

theorem tool_responses_counterexample:
  "length (sendToolResponseCalls (onToolCall
      \<lparr>functionCalls = [invocation ''foo'' ''{}'' ''1'', invocation ''bar'' ''{}'' ''2'']\<rparr>)) = 1
   \<and> length (functionCalls
      \<lparr>functionCalls = [invocation ''foo'' ''{}'' ''1'', invocation ''bar'' ''{}'' ''2'']\<rparr>) = 2
   \<and> length (sendToolResponseCalls (onToolCall
      \<lparr>functionCalls = [invocation ''foo'' ''{}'' ''1'', invocation ''bar'' ''{}'' ''2'']\<rparr>))
     \<noteq> length (functionCalls
      \<lparr>functionCalls = [invocation ''foo'' ''{}'' ''1'', invocation ''bar'' ''{}'' ''2'']\<rparr>)"
  by (simp add: sendToolResponseCalls_onToolCall)

text \<open>
  C5, as amended. For every toolcall event, only the first function invocation whose name
  is that of the declaration \<open>render_altair\<close> has the handler invoked, with its
  \<open>json_graph\<close> argument; later invocations with that name do not trigger the handler.
  With no such invocation the handler is not invoked.
\<close>

theorem handler_first_match_only:
  "handlerCalls (onToolCall tc) = take 1 (specHandlerCalls tc)"
  by (simp add: handlerCalls_onToolCall specHandlerCalls_def find_filter split: list.splits)

text \<open>
  C5 as stated fails: of two invocations named \<open>render_altair\<close> in one event, with the
  graphs "A" and "B", only the first reaches the handler.
\<close>

theorem handler_every_match_counterexample:
  "handlerCalls (onToolCall
      \<lparr>functionCalls = [invocation ''render_altair'' ''A'' ''1'',
                        invocation ''render_altair'' ''B'' ''2'']\<rparr>)
     = [Some (utf16 ''A'')]
   \<and> specHandlerCalls
      \<lparr>functionCalls = [invocation ''render_altair'' ''A'' ''1'',
                        invocation ''render_altair'' ''B'' ''2'']\<rparr>
     = [Some (utf16 ''A''), Some (utf16 ''B'')]
   \<and> handlerCalls (onToolCall
      \<lparr>functionCalls = [invocation ''render_altair'' ''A'' ''1'',
                        invocation ''render_altair'' ''B'' ''2'']\<rparr>)
     \<noteq> specHandlerCalls
      \<lparr>functionCalls = [invocation ''render_altair'' ''A'' ''1'',
                        invocation ''render_altair'' ''B'' ''2'']\<rparr>"
  by (simp add: handlerCalls_onToolCall specHandlerCalls_def invocation_def
      altairDeclaration_def)

section \<open>Connecting and disconnecting\<close>

text \<open>
  C3, as amended. \<open>connect()\<close> fails with the error "config has not been set", and makes
  no call on the client, when the hook holds no configuration. Without a prior
  \<open>setConfig()\<close> the hook holds the default configuration of its first render, so
  \<open>connect()\<close> does not fail with that error: it disconnects the client and attempts a
  connection with the default configuration, as it does with any configuration it holds.
\<close>

theorem connect_config_missing:
  "(config s = None \<longrightarrow> connect resolves s = (Inl ConfigNotSet, []))
   \<and> (config s \<noteq> None \<longrightarrow>
        snd (connect resolves s) = [ClientDisconnect, ClientConnect (the (config s))]
        \<and> fst (connect resolves s) \<noteq> Inl ConfigNotSet)
   \<and> config initial = Some defaultConfig
   \<and> snd (connect resolves initial) = [ClientDisconnect, ClientConnect defaultConfig]
   \<and> fst (connect resolves initial) \<noteq> Inl ConfigNotSet"
  by (auto simp: connect_def initial_def split: if_splits)

theorem connect_config_missing_witness:
  "config (initial\<lparr>config := None\<rparr>) = None
   \<and> connect True (initial\<lparr>config := None\<rparr>) = (Inl ConfigNotSet, [])
   \<and> config (setConfig defaultConfig initial) \<noteq> None
   \<and> snd (connect True (setConfig defaultConfig initial))
       = [ClientDisconnect, ClientConnect defaultConfig]"
  using connect_config_missing [of "initial\<lparr>config := None\<rparr>" True]
    connect_config_missing [of "setConfig defaultConfig initial" True]
  by (simp add: initial_def setConfig_def)

text \<open>
  C3 as stated fails: at the first render, before any \<open>setConfig()\<close>, \<open>connect()\<close> goes
  through to the client with the default configuration.
\<close>

theorem connect_default_config_counterexample:
  "connect True initial
     = (Inr (initial\<lparr>connected := True\<rparr>), [ClientDisconnect, ClientConnect defaultConfig])
   \<and> fst (connect True initial) \<noteq> Inl ConfigNotSet
   \<and> snd (connect True initial) \<noteq> []"
  by (simp add: connect_def initial_def)

text \<open>
  C8. For every state, processing a close event sets the connected flag to false and
  leaves the turn history as it was: \<open>textResponses\<close>, \<open>userMessages\<close> and the pending
  accumulator hold the same values after the event as before it.
\<close>

theorem onClose_frame:
  "connected (onClose s) = False
   \<and> textResponses (onClose s) = textResponses s
   \<and> userMessages (onClose s) = userMessages s
   \<and> currentResponseRef (onClose s) = currentResponseRef s"
  by (simp add: onClose_def)

text \<open>
  C10. \<open>disconnect()\<close> changes only the connected flag, which it sets to false: from any
  state the result is the state with that one field replaced, so \<open>textResponses\<close>,
  \<open>userMessages\<close>, \<open>volume\<close>, the configuration and the pending accumulator are unchanged.
\<close>

theorem disconnect_frame:
  "fst (disconnect s) = s\<lparr>connected := False\<rparr>
   \<and> connected (fst (disconnect s)) = False
   \<and> textResponses (fst (disconnect s)) = textResponses s
   \<and> userMessages (fst (disconnect s)) = userMessages s
   \<and> volume (fst (disconnect s)) = volume s
   \<and> config (fst (disconnect s)) = config s
   \<and> currentResponseRef (fst (disconnect s)) = currentResponseRef s"
  by (simp add: disconnect_def)

end
